theory Spec2Isabelle
  imports Main
begin

section \<open>The generic finite state machine of fsm.cpp\<close>

text \<open>
  The class template \<^verbatim>\<open>fsm<State, Input>\<close> is embedded with the two template
  parameters as the type variables \<open>'s\<close> and \<open>'i\<close>. A \<^verbatim>\<open>FuncPtr\<close>
  (\<^verbatim>\<open>void (*)()\<close>) is a value of a third type \<open>'f\<close> that names the function pointed
  to; the engine never looks inside a function, it only stores the pointer and calls
  through it.

  The member functions mutate the object, lock and unlock the mutex, print to
  \<^verbatim>\<open>std::cout\<close> and call through function pointers. The embedding passes the object
  explicitly and returns it updated, together with the list of these effects in the
  order in which the member function performs them.
\<close>

subsection \<open>Data members\<close>

text \<open>
  \<^verbatim>\<open>sd\<close> is a \<^verbatim>\<open>std::map\<close> from \<^verbatim>\<open>StateInputPair\<close> to \<^verbatim>\<open>LastStateCallbackPair\<close>,
  \<^verbatim>\<open>listOfStates\<close> a \<^verbatim>\<open>std::set\<close> of states. Neither is ever iterated, so the order
  of the keys plays no role and key equivalence is taken to be equality.

  \<^verbatim>\<open>fallBackFunction\<close> is a raw function pointer that the constructor leaves
  uninitialised; it holds no function until \<^verbatim>\<open>SetFallback\<close> stores one, which is
  the value \<open>None\<close> here. \<^verbatim>\<open>currentState\<close> is default-initialised by the
  constructor, so it holds some value of the state type from the start.
\<close>

record ('s, 'i, 'f) fsm =
  sd :: "('s \<times> 'i) \<rightharpoonup> ('s \<times> 'f)"
  listOfStates :: "'s set"
  currentState :: 's
  fallBackFunction :: "'f option"

text \<open>The constructor \<^verbatim>\<open>fsm(){}\<close>: empty containers; \<open>c0\<close> is the default-initialised
  value of the state type.\<close>

definition fsm_init :: "'s \<Rightarrow> ('s, 'i, 'f) fsm" where
  "fsm_init c0 =
     \<lparr>sd = Map.empty, listOfStates = {}, currentState = c0, fallBackFunction = None\<rparr>"

subsection \<open>Effects and faults\<close>

text \<open>
  One event per effect of a member function:
  \<^item> \<open>Mutex_lock\<close>, \<open>Mutex_unlock\<close>: \<^verbatim>\<open>mutex_.lock()\<close> and \<^verbatim>\<open>mutex_.unlock()\<close>;
  \<^item> \<open>Cout_failure s\<close>: the line \<^verbatim>\<open>" FAILURE, state " << s << " is not in the state list "\<close>;
  \<^item> \<open>Call_fallback f c\<close>: the call \<^verbatim>\<open>fallBackFunction()\<close>, where \<open>f\<close> is the function
    stored in the slot;
  \<^item> \<open>Call_callback f c\<close>: the call \<^verbatim>\<open>it->second.second()\<close> in \<^verbatim>\<open>Step\<close>, where \<open>f\<close> is
    the callback of the entry found.
  In both calls \<open>c\<close> is what \<^verbatim>\<open>GetState()\<close> returns while the called function runs.
  A called function cannot change the object: every mutating member function locks the
  non-recursive mutex that the caller still holds.
\<close>

datatype ('s, 'f) event =
    Mutex_lock
  | Mutex_unlock
  | Cout_failure 's
  | Call_fallback 'f 's
  | Call_callback 'f 's

text \<open>Calling through the fallback pointer before \<^verbatim>\<open>SetFallback\<close> has stored a function
  is undefined behaviour; the model stops there with a fault.\<close>

datatype fault = Unset_fallback_called

type_synonym ('s, 'i, 'f) outcome = "fault + (('s, 'i, 'f) fsm \<times> ('s, 'f) event list)"

text \<open>The fallback functions and the transition callbacks called in a trace, in order.\<close>

fun fallbacks_called :: "('s, 'f) event list \<Rightarrow> 'f list" where
  "fallbacks_called [] = []"
| "fallbacks_called (Call_fallback f c # es) = f # fallbacks_called es"
| "fallbacks_called (e # es) = fallbacks_called es"

fun callbacks_called :: "('s, 'f) event list \<Rightarrow> 'f list" where
  "callbacks_called [] = []"
| "callbacks_called (Call_callback f c # es) = f # callbacks_called es"
| "callbacks_called (e # es) = callbacks_called es"

subsection \<open>Member functions\<close>

text \<open>\<^verbatim>\<open>State GetState()\<close> returns the member; it does not touch the mutex.\<close>

definition GetState :: "('s, 'i, 'f) fsm \<Rightarrow> 's" where
  "GetState m = currentState m"

text \<open>The statement \<^verbatim>\<open>fallBackFunction();\<close>.\<close>

definition call_fallBackFunction :: "('s, 'i, 'f) fsm \<Rightarrow> fault + ('s, 'f) event" where
  "call_fallBackFunction m =
     (case fallBackFunction m of
        None \<Rightarrow> Inl Unset_fallback_called
      | Some fb \<Rightarrow> Inr (Call_fallback fb (GetState m)))"

text \<open>\<^verbatim>\<open>std::map::insert\<close>: the pair is stored only if the map has no element with an
  equivalent key; otherwise the map is left as it is.\<close>

definition map_insert :: "('k \<rightharpoonup> 'v) \<Rightarrow> 'k \<Rightarrow> 'v \<Rightarrow> ('k \<rightharpoonup> 'v)" where
  "map_insert t k v = (case t k of None \<Rightarrow> t(k \<mapsto> v) | Some _ \<Rightarrow> t)"

definition AddState :: "'s \<Rightarrow> ('s, 'i, 'f) fsm \<Rightarrow> ('s, 'i, 'f) outcome" where
  "AddState s m =
     (let m' = (if s \<notin> listOfStates m
                then m\<lparr>listOfStates := insert s (listOfStates m)\<rparr>
                else m)
      in Inr (m', [Mutex_lock, Mutex_unlock]))"

definition SetFallback :: "'f \<Rightarrow> ('s, 'i, 'f) fsm \<Rightarrow> ('s, 'i, 'f) outcome" where
  "SetFallback fb m = Inr (m\<lparr>fallBackFunction := Some fb\<rparr>, [Mutex_lock, Mutex_unlock])"

definition AddTransition ::
    "'s \<Rightarrow> 's \<Rightarrow> 'i \<Rightarrow> 'f \<Rightarrow> ('s, 'i, 'f) fsm \<Rightarrow> ('s, 'i, 'f) outcome" where
  "AddTransition s1 s2 inp cb m =
     (if s1 \<notin> listOfStates m then
        (case call_fallBackFunction m of
           Inl e \<Rightarrow> Inl e
         | Inr c \<Rightarrow> Inr (m, [Mutex_lock, Cout_failure s1, c, Mutex_unlock]))
      else if s2 \<notin> listOfStates m then
        (case call_fallBackFunction m of
           Inl e \<Rightarrow> Inl e
         | Inr c \<Rightarrow> Inr (m, [Mutex_lock, Cout_failure s2, c, Mutex_unlock]))
      else
        Inr (m\<lparr>sd := map_insert (sd m) (s1, inp) (s2, cb)\<rparr>, [Mutex_lock, Mutex_unlock]))"

definition ResetMachine :: "'s \<Rightarrow> ('s, 'i, 'f) fsm \<Rightarrow> ('s, 'i, 'f) outcome" where
  "ResetMachine s m =
     (if s \<notin> listOfStates m then
        (case call_fallBackFunction m of
           Inl e \<Rightarrow> Inl e
         | Inr c \<Rightarrow> Inr (m, [Mutex_lock, Cout_failure s, c, Mutex_unlock]))
      else
        Inr (m\<lparr>currentState := s\<rparr>, [Mutex_lock, Mutex_unlock]))"

definition Step :: "'i \<Rightarrow> ('s, 'i, 'f) fsm \<Rightarrow> ('s, 'i, 'f) outcome" where
  "Step inp m =
     (case sd m (currentState m, inp) of
        None \<Rightarrow>
          (case call_fallBackFunction m of
             Inl e \<Rightarrow> Inl e
           | Inr c \<Rightarrow> Inr (m, [Mutex_lock, c, Mutex_unlock]))
      | Some (d, cb) \<Rightarrow>
          (let m' = m\<lparr>currentState := d\<rparr>
           in Inr (m', [Mutex_lock, Call_callback cb (GetState m'), Mutex_unlock])))"

subsection \<open>Sequences of calls\<close>

text \<open>A call of a public member function by client code. \<open>Call_GetState\<close> changes
  nothing and has no effect of its own; its return value is \<open>GetState\<close> of the object.\<close>

datatype ('s, 'i, 'f) call =
    Call_AddState 's
  | Call_SetFallback 'f
  | Call_AddTransition 's 's 'i 'f
  | Call_ResetMachine 's
  | Call_Step 'i
  | Call_GetState

fun exec :: "('s, 'i, 'f) call \<Rightarrow> ('s, 'i, 'f) fsm \<Rightarrow> ('s, 'i, 'f) outcome" where
  "exec (Call_AddState s) m = AddState s m"
| "exec (Call_SetFallback fb) m = SetFallback fb m"
| "exec (Call_AddTransition s1 s2 inp cb) m = AddTransition s1 s2 inp cb m"
| "exec (Call_ResetMachine s) m = ResetMachine s m"
| "exec (Call_Step inp) m = Step inp m"
| "exec Call_GetState m = Inr (m, [])"

text \<open>Calls one after the other; the run ends at the first fault.\<close>

fun run :: "('s, 'i, 'f) call list \<Rightarrow> ('s, 'i, 'f) fsm \<Rightarrow> ('s, 'i, 'f) outcome" where
  "run [] m = Inr (m, [])"
| "run (c # cs) m =
     (case exec c m of
        Inl e \<Rightarrow> Inl e
      | Inr (m1, t1) \<Rightarrow>
          (case run cs m1 of
             Inl e \<Rightarrow> Inl e
           | Inr (m2, t2) \<Rightarrow> Inr (m2, t1 @ t2)))"

subsection \<open>The functions and values of the test cases\<close>

text \<open>The three functions \<^verbatim>\<open>callback1\<close>, \<^verbatim>\<open>callback2\<close> and \<^verbatim>\<open>fallback\<close> that the test
  cases register, and the object of \<^verbatim>\<open>testCase1\<close> (states are strings, inputs are
  characters) after its set-up, up to and including \<^verbatim>\<open>ResetMachine(s1)\<close>.\<close>

datatype testfn = callback1 | callback2 | fallback

definition tc1 :: "(string, char, testfn) fsm" where
  "tc1 =
     \<lparr>sd = [(''s1'', CHR ''i'') \<mapsto> (''s2'', callback1),
            (''s2'', CHR ''j'') \<mapsto> (''s3'', callback2)],
      listOfStates = {''s1'', ''s2'', ''s3''},
      currentState = ''s1'',
      fallBackFunction = Some fallback\<rparr>"

text \<open>The object of \<^verbatim>\<open>testCase3\<close> after its set-up: \<^verbatim>\<open>s3\<close> was never added, so the
  second \<^verbatim>\<open>AddTransition\<close> of that test stored nothing.\<close>

definition tc3 :: "(string, char, testfn) fsm" where
  "tc3 =
     \<lparr>sd = [(''s1'', CHR ''i'') \<mapsto> (''s2'', callback1)],
      listOfStates = {''s1'', ''s2''},
      currentState = ''s1'',
      fallBackFunction = Some fallback\<rparr>"

text \<open>The calls of \<^verbatim>\<open>testCase1\<close>: the set-up before \<^verbatim>\<open>ResetMachine(s1)\<close>, and the calls
  from there on (without the \<^verbatim>\<open>GetState\<close> calls inside \<^verbatim>\<open>myAssert\<close>).\<close>

definition testCase1_setup :: "(string, char, testfn) call list" where
  "testCase1_setup =
     [Call_SetFallback fallback,
      Call_AddState ''s1'', Call_AddState ''s2'', Call_AddState ''s3'',
      Call_AddTransition ''s1'' ''s2'' (CHR ''i'') callback1,
      Call_AddTransition ''s2'' ''s3'' (CHR ''j'') callback2]"

definition testCase1_steps :: "(string, char, testfn) call list" where
  "testCase1_steps =
     [Call_Step (CHR ''i''), Call_Step (CHR ''j''), Call_Step (CHR ''j''),
      Call_ResetMachine ''s2'']"

subsection \<open>Predicates on objects and traces\<close>

text \<open>A trace runs under the mutex when it starts by locking it, ends by unlocking it and
  does neither in between.\<close>

fun under_mutex :: "('s, 'f) event list \<Rightarrow> bool" where
  "under_mutex [] = False"
| "under_mutex (e # es) =
     (e = Mutex_lock \<and> es \<noteq> [] \<and> last es = Mutex_unlock
      \<and> Mutex_lock \<notin> set (butlast es) \<and> Mutex_unlock \<notin> set (butlast es))"

text \<open>Every destination state stored in the state diagram is in the list of states.\<close>

definition dests_registered :: "('s, 'i, 'f) fsm \<Rightarrow> bool" where
  "dests_registered m = (\<forall>k d cb. sd m k = Some (d, cb) \<longrightarrow> d \<in> listOfStates m)"

section \<open>Properties\<close>

subsection \<open>Helper facts\<close>

lemma call_fallBackFunction_set:
  "fallBackFunction m = Some fb \<Longrightarrow>
     call_fallBackFunction m = Inr (Call_fallback fb (currentState m))"
  by (simp add: call_fallBackFunction_def GetState_def)

lemma map_le_map_insert: "t \<subseteq>\<^sub>m map_insert t k v"
  by (auto simp: map_insert_def map_le_def split: option.splits)

lemma run_ConsE:
  assumes "run (c # cs) m = Inr (m', t)"
  obtains m1 t1 t2 where "exec c m = Inr (m1, t1)" and "run cs m1 = Inr (m', t2)"
  using assms by (auto split: sum.splits)

text \<open>The model reproduces \<^verbatim>\<open>testCase1\<close>: the set-up and \<^verbatim>\<open>ResetMachine(s1)\<close> lead from
  the fresh object to \<open>tc1\<close>; the steps then go to \<^verbatim>\<open>s2\<close>, to \<^verbatim>\<open>s3\<close>, call the fallback
  and stay in \<^verbatim>\<open>s3\<close>, and the last reset puts the machine in \<^verbatim>\<open>s2\<close>.\<close>

lemma testCase1_setup_run:
  "run testCase1_setup (fsm_init []) =
     Inr (tc1\<lparr>currentState := []\<rparr>,
          [Mutex_lock, Mutex_unlock, Mutex_lock, Mutex_unlock, Mutex_lock, Mutex_unlock,
           Mutex_lock, Mutex_unlock, Mutex_lock, Mutex_unlock, Mutex_lock, Mutex_unlock])"
  by (simp add: testCase1_setup_def fsm_init_def tc1_def AddState_def SetFallback_def
        AddTransition_def map_insert_def insert_commute)

lemma testCase1_steps_run:
  "run (Call_ResetMachine ''s1'' # testCase1_steps) (tc1\<lparr>currentState := []\<rparr>) =
     Inr (tc1\<lparr>currentState := ''s2''\<rparr>,
          [Mutex_lock, Mutex_unlock,
           Mutex_lock, Call_callback callback1 ''s2'', Mutex_unlock,
           Mutex_lock, Call_callback callback2 ''s3'', Mutex_unlock,
           Mutex_lock, Call_fallback fallback ''s3'', Mutex_unlock,
           Mutex_lock, Mutex_unlock])"
  by (simp add: testCase1_steps_def tc1_def ResetMachine_def Step_def
        call_fallBackFunction_def GetState_def)

subsection \<open>Step\<close>

text \<open>
  Claim C1. When the state diagram has an entry \<open>(d, cb)\<close> for the current state and the
  input, \<open>Step\<close> returns the object with the current state set to \<open>d\<close>, calls \<open>cb\<close>
  once and calls no fallback. The assignment comes first: while \<open>cb\<close> runs,
  \<open>GetState\<close> already returns \<open>d\<close>.
\<close>

theorem Step_matched:
  "sd m (currentState m, inp) = Some (d, cb) \<Longrightarrow>
     \<exists>m' t. Step inp m = Inr (m', t) \<and> m' = m\<lparr>currentState := d\<rparr> \<and> GetState m' = d
       \<and> t = [Mutex_lock, Call_callback cb d, Mutex_unlock]
       \<and> callbacks_called t = [cb] \<and> fallbacks_called t = []"
  by (simp add: Step_def GetState_def)

theorem Step_matched_witness:
  "sd tc1 (currentState tc1, CHR ''i'') = Some (''s2'', callback1)
   \<and> Step (CHR ''i'') tc1 =
       Inr (tc1\<lparr>currentState := ''s2''\<rparr>,
            [Mutex_lock, Call_callback callback1 ''s2'', Mutex_unlock])"
  using Step_matched [of tc1 "CHR ''i''" "''s2''" callback1] by (simp add: tc1_def)

text \<open>
  Claim C3, as stated for every object, fails where no fallback function has been set.
  The freshly constructed object has no entry for any key, and \<open>Step\<close> on it calls
  through the unset pointer: the call faults, no fallback function runs. The same
  happens after the calls of the README example, which never calls \<^verbatim>\<open>SetFallback\<close>,
  at the first step that finds no entry.
\<close>

theorem Step_unmatched_unset_counterexample:
  "sd (fsm_init [] :: (string, char, testfn) fsm)
      (currentState (fsm_init [] :: (string, char, testfn) fsm), CHR ''i'') = None
   \<and> Step (CHR ''i'') (fsm_init [] :: (string, char, testfn) fsm) = Inl Unset_fallback_called
   \<and> run [Call_AddState ''s1'', Call_AddState ''s2'',
           Call_AddTransition ''s1'' ''s2'' (CHR ''i'') callback1,
           Call_ResetMachine ''s1'', Call_Step (CHR ''j'')]
          (fsm_init [] :: (string, char, testfn) fsm) = Inl Unset_fallback_called"
  by (simp add: fsm_init_def Step_def call_fallBackFunction_def AddState_def
        AddTransition_def ResetMachine_def map_insert_def)

text \<open>
  Claim C3, amended. When a fallback function \<open>fb\<close> has been set and the state diagram
  has no entry for the current state and the input, \<open>Step\<close> calls \<open>fb\<close> once, calls no
  transition callback and returns the object as it was, so \<open>GetState\<close> is unchanged.
\<close>

theorem Step_unmatched:
  "fallBackFunction m = Some fb \<Longrightarrow> sd m (currentState m, inp) = None \<Longrightarrow>
     \<exists>t. Step inp m = Inr (m, t)
       \<and> t = [Mutex_lock, Call_fallback fb (currentState m), Mutex_unlock]
       \<and> fallbacks_called t = [fb] \<and> callbacks_called t = []"
  by (simp add: Step_def call_fallBackFunction_set)

theorem Step_unmatched_witness:
  "fallBackFunction tc1 = Some fallback \<and> sd tc1 (currentState tc1, CHR ''j'') = None
   \<and> Step (CHR ''j'') tc1 = Inr (tc1, [Mutex_lock, Call_fallback fallback ''s1'', Mutex_unlock])"
  using Step_unmatched [of tc1 fallback "CHR ''j''"] by (simp add: tc1_def)

subsection \<open>AddTransition\<close>

text \<open>
  Claim C2, as stated, fails: \<open>AddTransition\<close> stores with \<^verbatim>\<open>std::map::insert\<close>, which
  keeps an existing element. In \<open>tc1\<close> the key \<^verbatim>\<open>(s1, 'i')\<close> leads to \<^verbatim>\<open>s2\<close> with
  \<^verbatim>\<open>callback1\<close>; after \<^verbatim>\<open>AddTransition(s1, s3, 'i', callback2)\<close> the object is the same,
  and the step from \<^verbatim>\<open>s1\<close> on \<^verbatim>\<open>'i'\<close> still goes to \<^verbatim>\<open>s2\<close> and calls \<^verbatim>\<open>callback1\<close>.
\<close>

theorem AddTransition_overwrite_counterexample:
  "''s1'' \<in> listOfStates tc1 \<and> ''s3'' \<in> listOfStates tc1
   \<and> sd tc1 (''s1'', CHR ''i'') = Some (''s2'', callback1)
   \<and> AddTransition ''s1'' ''s3'' (CHR ''i'') callback2 tc1 = Inr (tc1, [Mutex_lock, Mutex_unlock])
   \<and> sd tc1 (''s1'', CHR ''i'') \<noteq> Some (''s3'', callback2)
   \<and> run [Call_AddTransition ''s1'' ''s3'' (CHR ''i'') callback2, Call_Step (CHR ''i'')] tc1 =
       Inr (tc1\<lparr>currentState := ''s2''\<rparr>,
            [Mutex_lock, Mutex_unlock,
             Mutex_lock, Call_callback callback1 ''s2'', Mutex_unlock])"
  by (simp add: tc1_def AddTransition_def Step_def GetState_def map_insert_def)

text \<open>
  Claim C2, amended. For registered states \<open>s1\<close> and \<open>s2\<close>, when the state diagram
  already has an entry \<open>(d0, cb0)\<close> for the key \<open>(s1, inp)\<close>, a later
  \<open>AddTransition s1 s2 inp cb\<close> leaves the object as it was and calls nothing (the first
  registration wins); a step from \<open>s1\<close> on \<open>inp\<close> afterwards goes to \<open>d0\<close> and calls
  \<open>cb0\<close>.
\<close>

theorem AddTransition_keeps_first:
  "s1 \<in> listOfStates m \<Longrightarrow> s2 \<in> listOfStates m \<Longrightarrow> sd m (s1, inp) = Some (d0, cb0) \<Longrightarrow>
     AddTransition s1 s2 inp cb m = Inr (m, [Mutex_lock, Mutex_unlock])
     \<and> Step inp (m\<lparr>currentState := s1\<rparr>) =
         Inr (m\<lparr>currentState := d0\<rparr>, [Mutex_lock, Call_callback cb0 d0, Mutex_unlock])"
  by (simp add: AddTransition_def Step_def GetState_def map_insert_def)

theorem AddTransition_keeps_first_witness:
  "''s1'' \<in> listOfStates tc1 \<and> ''s3'' \<in> listOfStates tc1
   \<and> sd tc1 (''s1'', CHR ''i'') = Some (''s2'', callback1)
   \<and> AddTransition ''s1'' ''s3'' (CHR ''i'') callback2 tc1 = Inr (tc1, [Mutex_lock, Mutex_unlock])
   \<and> Step (CHR ''i'') (tc1\<lparr>currentState := ''s1''\<rparr>) =
         Inr (tc1\<lparr>currentState := ''s2''\<rparr>,
              [Mutex_lock, Call_callback callback1 ''s2'', Mutex_unlock])"
  using AddTransition_keeps_first
          [of "''s1''" tc1 "''s3''" "CHR ''i''" "''s2''" callback1 callback2]
  by (simp add: tc1_def)

text \<open>
  Claim C4, as stated for every call, fails where no fallback function has been set:
  on the freshly constructed object \<^verbatim>\<open>s1\<close> is not in the list of states, and
  \<open>AddTransition\<close> calls through the unset pointer and faults; no fallback function runs.
\<close>

theorem AddTransition_invalid_unset_counterexample:
  "''s1'' \<notin> listOfStates (fsm_init [] :: (string, char, testfn) fsm)
   \<and> AddTransition ''s1'' ''s2'' (CHR ''i'') callback1
         (fsm_init [] :: (string, char, testfn) fsm) = Inl Unset_fallback_called"
  by (simp add: fsm_init_def AddTransition_def call_fallBackFunction_def)

text \<open>
  Claim C4, amended. When a fallback function \<open>fb\<close> has been set and \<open>s1\<close> or \<open>s2\<close> is not in the
  list of states, \<open>AddTransition s1 s2 inp cb\<close> prints the failure line for the first
  of the two that is missing, calls \<open>fb\<close> once and returns the object as it was: the
  state diagram has no new and no changed entry.
\<close>

theorem AddTransition_invalid:
  "fallBackFunction m = Some fb \<Longrightarrow> s1 \<notin> listOfStates m \<or> s2 \<notin> listOfStates m \<Longrightarrow>
     \<exists>t. AddTransition s1 s2 inp cb m = Inr (m, t)
       \<and> t = [Mutex_lock, Cout_failure (if s1 \<notin> listOfStates m then s1 else s2),
              Call_fallback fb (currentState m), Mutex_unlock]
       \<and> fallbacks_called t = [fb] \<and> callbacks_called t = []"
  by (auto simp add: AddTransition_def call_fallBackFunction_set)

theorem AddTransition_invalid_witness:
  "fallBackFunction tc3 = Some fallback \<and> ''s3'' \<notin> listOfStates tc3
   \<and> AddTransition ''s2'' ''s3'' (CHR ''j'') callback2 tc3 =
       Inr (tc3, [Mutex_lock, Cout_failure ''s3'', Call_fallback fallback ''s1'', Mutex_unlock])
   \<and> sd tc3 (''s2'', CHR ''j'') = None"
  using AddTransition_invalid [of tc3 fallback "''s2''" "''s3''" "CHR ''j''" callback2]
  by (simp add: tc3_def)

subsection \<open>ResetMachine\<close>

text \<open>
  Claim C5. For a state \<open>s\<close> in the list of states, \<open>ResetMachine s\<close> sets the current
  state to \<open>s\<close>, so that \<open>GetState\<close> returns \<open>s\<close>, and calls neither a transition
  callback nor the fallback.
\<close>

theorem ResetMachine_registered:
  "s \<in> listOfStates m \<Longrightarrow>
     \<exists>m' t. ResetMachine s m = Inr (m', t) \<and> m' = m\<lparr>currentState := s\<rparr> \<and> GetState m' = s
       \<and> t = [Mutex_lock, Mutex_unlock]
       \<and> fallbacks_called t = [] \<and> callbacks_called t = []"
  by (simp add: ResetMachine_def GetState_def)

theorem ResetMachine_registered_witness:
  "''s2'' \<in> listOfStates tc1
   \<and> ResetMachine ''s2'' tc1 = Inr (tc1\<lparr>currentState := ''s2''\<rparr>, [Mutex_lock, Mutex_unlock])
   \<and> GetState (tc1\<lparr>currentState := ''s2''\<rparr>) = ''s2''"
  using ResetMachine_registered [of "''s2''" tc1] by (auto simp add: tc1_def)

text \<open>
  Claim C6, as stated for every unregistered state, fails where no fallback function has
  been set: on the freshly constructed object \<^verbatim>\<open>s1\<close> is not in the list of states, and
  \<open>ResetMachine\<close> calls through the unset pointer and faults; no fallback function runs.
\<close>

theorem ResetMachine_unregistered_unset_counterexample:
  "''s1'' \<notin> listOfStates (fsm_init [] :: (string, char, testfn) fsm)
   \<and> ResetMachine ''s1'' (fsm_init [] :: (string, char, testfn) fsm) = Inl Unset_fallback_called"
  by (simp add: fsm_init_def ResetMachine_def call_fallBackFunction_def)

text \<open>
  Claim C6, amended. When a fallback function \<open>fb\<close> has been set and \<open>s\<close> is not in the list of
  states, \<open>ResetMachine s\<close> prints the failure line, calls \<open>fb\<close> once and returns the
  object as it was; in particular the current state is unchanged.
\<close>

theorem ResetMachine_unregistered:
  "fallBackFunction m = Some fb \<Longrightarrow> s \<notin> listOfStates m \<Longrightarrow>
     \<exists>t. ResetMachine s m = Inr (m, t)
       \<and> t = [Mutex_lock, Cout_failure s, Call_fallback fb (currentState m), Mutex_unlock]
       \<and> fallbacks_called t = [fb] \<and> callbacks_called t = []"
  by (simp add: ResetMachine_def call_fallBackFunction_set)

theorem ResetMachine_unregistered_witness:
  "fallBackFunction tc3 = Some fallback \<and> ''s3'' \<notin> listOfStates tc3
   \<and> ResetMachine ''s3'' tc3 =
       Inr (tc3, [Mutex_lock, Cout_failure ''s3'', Call_fallback fallback ''s1'', Mutex_unlock])"
  using ResetMachine_unregistered [of tc3 fallback "''s3''"] by (simp add: tc3_def)

subsection \<open>AddState\<close>

text \<open>
  Claim C7. \<open>AddState\<close> never faults and calls nothing, and adding the same state twice
  in a row gives the same object, with the same list of states, as adding it once.
\<close>

theorem AddState_idempotent:
  "\<exists>m1. run [Call_AddState s] m = Inr (m1, [Mutex_lock, Mutex_unlock])
     \<and> run [Call_AddState s, Call_AddState s] m =
         Inr (m1, [Mutex_lock, Mutex_unlock, Mutex_lock, Mutex_unlock])
     \<and> listOfStates m1 = insert s (listOfStates m)"
  by (auto simp add: AddState_def Let_def insert_absorb)

subsection \<open>Nothing is ever removed\<close>

lemma exec_monotone:
  "exec c m = Inr (m', t) \<Longrightarrow> listOfStates m \<subseteq> listOfStates m' \<and> sd m \<subseteq>\<^sub>m sd m'"
  by (cases c)
     (auto simp: AddState_def SetFallback_def AddTransition_def ResetMachine_def Step_def
                 Let_def map_le_map_insert
           split: if_splits sum.splits option.splits)

text \<open>A run from the object of \<^verbatim>\<open>testCase3\<close>, which already has two states and one
  entry: it adds a state and an entry, registers the key of the old entry again, steps
  with and without a matching entry, resets and reads the state. It ends in \<open>tc1\<close>.\<close>

lemma tc3_grow_run:
  "run [Call_AddState ''s3'',
        Call_AddTransition ''s2'' ''s3'' (CHR ''j'') callback2,
        Call_AddTransition ''s1'' ''s3'' (CHR ''i'') callback2,
        Call_Step (CHR ''i''),
        Call_Step (CHR ''i''),
        Call_ResetMachine ''s1'',
        Call_GetState] tc3 =
     Inr (tc1,
          [Mutex_lock, Mutex_unlock, Mutex_lock, Mutex_unlock, Mutex_lock, Mutex_unlock,
           Mutex_lock, Call_callback callback1 ''s2'', Mutex_unlock,
           Mutex_lock, Call_fallback fallback ''s2'', Mutex_unlock,
           Mutex_lock, Mutex_unlock])"
  by (simp add: tc1_def tc3_def AddState_def AddTransition_def ResetMachine_def Step_def
        call_fallBackFunction_def GetState_def map_insert_def insert_commute)

text \<open>
  Claim C8. Whatever public member functions are called, in whatever order, every state
  that was in the list of states is still there afterwards, and every entry that was in
  the state diagram is still there, under the same key and with the same destination
  and callback.
\<close>

theorem run_monotone:
  "run cs m = Inr (m', t) \<Longrightarrow> listOfStates m \<subseteq> listOfStates m' \<and> sd m \<subseteq>\<^sub>m sd m'"
proof (induction cs arbitrary: m t)
  case Nil
  then show ?case by simp
next
  case (Cons c cs)
  from Cons.prems obtain m1 t1 t2 where
    e: "exec c m = Inr (m1, t1)" and r: "run cs m1 = Inr (m', t2)"
    by (rule run_ConsE)
  from exec_monotone [OF e] Cons.IH [OF r] show ?case
    by (blast intro: map_le_trans)
qed

theorem run_monotone_witness:
  "run [Call_AddState ''s3'',
        Call_AddTransition ''s2'' ''s3'' (CHR ''j'') callback2,
        Call_AddTransition ''s1'' ''s3'' (CHR ''i'') callback2,
        Call_Step (CHR ''i''),
        Call_Step (CHR ''i''),
        Call_ResetMachine ''s1'',
        Call_GetState] tc3 =
     Inr (tc1,
          [Mutex_lock, Mutex_unlock, Mutex_lock, Mutex_unlock, Mutex_lock, Mutex_unlock,
           Mutex_lock, Call_callback callback1 ''s2'', Mutex_unlock,
           Mutex_lock, Call_fallback fallback ''s2'', Mutex_unlock,
           Mutex_lock, Mutex_unlock])
   \<and> listOfStates tc3 = {''s1'', ''s2''} \<and> listOfStates tc3 \<subseteq> listOfStates tc1
   \<and> sd tc3 (''s1'', CHR ''i'') = Some (''s2'', callback1)
   \<and> sd tc1 (''s1'', CHR ''i'') = Some (''s2'', callback1)
   \<and> sd tc3 \<subseteq>\<^sub>m sd tc1"
proof -
  have facts: "listOfStates tc3 = {''s1'', ''s2''}"
    "sd tc3 (''s1'', CHR ''i'') = Some (''s2'', callback1)"
    "sd tc1 (''s1'', CHR ''i'') = Some (''s2'', callback1)"
    by (simp_all add: tc1_def tc3_def)
  from run_monotone [OF tc3_grow_run] tc3_grow_run facts show ?thesis by simp
qed

subsection \<open>The mutex\<close>

text \<open>Every member function but \<open>GetState\<close> holds the mutex from its first to its last
  effect, the calls through function pointers included.\<close>

lemma exec_under_mutex:
  "c \<noteq> Call_GetState \<Longrightarrow> exec c m = Inr (m', t) \<Longrightarrow> under_mutex t"
  by (cases c)
     (auto simp: AddState_def SetFallback_def AddTransition_def ResetMachine_def Step_def
                 Let_def call_fallBackFunction_def
           split: if_splits sum.splits option.splits)

text \<open>
  Claim C9 asks that \<open>GetState\<close>, too, runs under the mutex. It does not:
  \<open>GetState\<close> returns the current state without locking, so its trace has no
  \<open>Mutex_lock\<close> and is not under the mutex.
\<close>

theorem GetState_without_mutex:
  "\<exists>t. exec Call_GetState m = Inr (m, t) \<and> Mutex_lock \<notin> set t \<and> \<not> under_mutex t"
  by simp

subsection \<open>The current state is a registered state\<close>

lemma dests_registeredD:
  "dests_registered m \<Longrightarrow> sd m k = Some (d, cb) \<Longrightarrow> d \<in> listOfStates m"
  unfolding dests_registered_def by blast

lemma dests_registeredI:
  "(\<And>k d cb. sd m k = Some (d, cb) \<Longrightarrow> d \<in> listOfStates m) \<Longrightarrow> dests_registered m"
  unfolding dests_registered_def by blast

lemma dests_registered_same_sd:
  "dests_registered m \<Longrightarrow> sd m' = sd m \<Longrightarrow> listOfStates m \<subseteq> listOfStates m' \<Longrightarrow>
     dests_registered m'"
  unfolding dests_registered_def by (simp add: subset_iff)

lemma dests_registered_init: "dests_registered (fsm_init c0)"
  by (simp add: dests_registered_def fsm_init_def)

text \<open>\<open>AddTransition\<close> stores an entry only after it has found the destination in the
  list of states.\<close>

lemma AddTransition_dests_registered:
  assumes "dests_registered m" and "AddTransition s1 s2 inp cb m = Inr (m', t)"
  shows "dests_registered m'"
proof (rule dests_registeredI)
  fix k d cb'
  assume l: "sd m' k = Some (d, cb')"
  show "d \<in> listOfStates m'"
  proof (cases "s1 \<in> listOfStates m \<and> s2 \<in> listOfStates m")
    case True
    with assms(2) have m': "m' = m\<lparr>sd := map_insert (sd m) (s1, inp) (s2, cb)\<rparr>"
      by (simp add: AddTransition_def)
    with l have "sd m k = Some (d, cb') \<or> d = s2"
      by (auto simp: map_insert_def split: option.splits if_splits)
    with True m' assms(1) show ?thesis
      by (auto dest: dests_registeredD)
  next
    case False
    with assms(2) have "m' = m"
      by (auto simp: AddTransition_def split: if_splits sum.splits)
    with l assms(1) show ?thesis
      by (auto dest: dests_registeredD)
  qed
qed

lemma exec_dests_registered:
  assumes "dests_registered m" and "exec c m = Inr (m', t)"
  shows "dests_registered m'"
proof (cases c)
  case (Call_AddTransition s1 s2 inp cb)
  with assms show ?thesis by (auto intro: AddTransition_dests_registered)
next
  case (Call_AddState s)
  with assms(2) have "sd m' = sd m \<and> listOfStates m \<subseteq> listOfStates m'"
    by (auto simp: AddState_def Let_def split: if_splits)
  with assms(1) show ?thesis by (blast intro: dests_registered_same_sd)
next
  case (Call_SetFallback fb)
  with assms(2) have "sd m' = sd m \<and> listOfStates m \<subseteq> listOfStates m'"
    by (auto simp: SetFallback_def)
  with assms(1) show ?thesis by (blast intro: dests_registered_same_sd)
next
  case (Call_ResetMachine s)
  with assms(2) have "sd m' = sd m \<and> listOfStates m \<subseteq> listOfStates m'"
    by (auto simp: ResetMachine_def split: if_splits sum.splits)
  with assms(1) show ?thesis by (blast intro: dests_registered_same_sd)
next
  case (Call_Step inp)
  with assms(2) have "sd m' = sd m \<and> listOfStates m \<subseteq> listOfStates m'"
    by (auto simp: Step_def Let_def split: option.splits sum.splits)
  with assms(1) show ?thesis by (blast intro: dests_registered_same_sd)
next
  case Call_GetState
  with assms show ?thesis by simp
qed

lemma run_dests_registered:
  "dests_registered m \<Longrightarrow> run cs m = Inr (m', t) \<Longrightarrow> dests_registered m'"
proof (induction cs arbitrary: m t)
  case Nil
  then show ?case by simp
next
  case (Cons c cs)
  from Cons.prems(2) obtain m1 t1 t2 where
    e: "exec c m = Inr (m1, t1)" and r: "run cs m1 = Inr (m', t2)"
    by (rule run_ConsE)
  from exec_dests_registered [OF Cons.prems(1) e] have "dests_registered m1" .
  from Cons.IH [OF this r] show ?case .
qed

lemma exec_current_registered:
  assumes "dests_registered m" and "currentState m \<in> listOfStates m"
    and "exec c m = Inr (m', t)"
  shows "currentState m' \<in> listOfStates m'"
proof (cases c)
  case (Call_AddState s)
  with assms show ?thesis by (auto simp: AddState_def Let_def split: if_splits)
next
  case (Call_SetFallback fb)
  with assms show ?thesis by (auto simp: SetFallback_def)
next
  case (Call_AddTransition s1 s2 inp cb)
  with assms show ?thesis
    by (auto simp: AddTransition_def split: if_splits sum.splits)
next
  case (Call_ResetMachine s)
  with assms show ?thesis
    by (auto simp: ResetMachine_def split: if_splits sum.splits)
next
  case (Call_Step inp)
  with assms show ?thesis
    by (auto simp: Step_def Let_def split: option.splits sum.splits dest: dests_registeredD)
next
  case Call_GetState
  with assms show ?thesis by simp
qed

lemma run_current_registered:
  "dests_registered m \<Longrightarrow> currentState m \<in> listOfStates m \<Longrightarrow> run cs m = Inr (m', t) \<Longrightarrow>
     currentState m' \<in> listOfStates m'"
proof (induction cs arbitrary: m t)
  case Nil
  then show ?case by simp
next
  case (Cons c cs)
  from Cons.prems(3) obtain m1 t1 t2 where
    e: "exec c m = Inr (m1, t1)" and r: "run cs m1 = Inr (m', t2)"
    by (rule run_ConsE)
  have d: "dests_registered m1"
    using exec_dests_registered [OF Cons.prems(1) e] .
  have c: "currentState m1 \<in> listOfStates m1"
    using exec_current_registered [OF Cons.prems(1,2) e] .
  from Cons.IH [OF d c r] show ?case .
qed

text \<open>
  Claim C10. Take any calls \<open>pre\<close> on a freshly constructed object, then a
  \<open>ResetMachine s\<close> that succeeds (\<open>s\<close> is in the list of states at that point), then
  any calls \<open>post\<close>. If the run returns, the current state of the object it returns is
  in the list of states.
\<close>

theorem current_state_registered:
  assumes pre: "run pre (fsm_init c0) = Inr (m1, t1)"
    and reg: "s \<in> listOfStates m1"
    and post: "run (Call_ResetMachine s # post) m1 = Inr (m2, t2)"
  shows "currentState m2 \<in> listOfStates m2"
proof -
  have d1: "dests_registered m1"
    using run_dests_registered [OF dests_registered_init pre] .
  from post reg obtain t3 where
    r: "run post (m1\<lparr>currentState := s\<rparr>) = Inr (m2, t3)"
    by (auto simp: ResetMachine_def split: sum.splits)
  have d: "dests_registered (m1\<lparr>currentState := s\<rparr>)"
    using d1 by (simp add: dests_registered_def)
  have c: "currentState (m1\<lparr>currentState := s\<rparr>) \<in> listOfStates (m1\<lparr>currentState := s\<rparr>)"
    using reg by simp
  from run_current_registered [OF d c r] show ?thesis .
qed

theorem current_state_registered_witness:
  "(\<exists>t1. run testCase1_setup (fsm_init [] :: (string, char, testfn) fsm) =
            Inr (tc1\<lparr>currentState := []\<rparr>, t1))
   \<and> ''s1'' \<in> listOfStates (tc1\<lparr>currentState := []\<rparr>)
   \<and> (\<exists>t2. run (Call_ResetMachine ''s1'' # testCase1_steps) (tc1\<lparr>currentState := []\<rparr>) =
            Inr (tc1\<lparr>currentState := ''s2''\<rparr>, t2))
   \<and> currentState (tc1\<lparr>currentState := ''s2''\<rparr>) \<in> listOfStates (tc1\<lparr>currentState := ''s2''\<rparr>)"
proof -
  have reg: "''s1'' \<in> listOfStates (tc1\<lparr>currentState := []\<rparr>)"
    by (simp add: tc1_def)
  from current_state_registered [OF testCase1_setup_run reg testCase1_steps_run]
    testCase1_setup_run reg testCase1_steps_run
  show ?thesis by simp
qed

end
